theory Spec2Isabelle
  imports Complex_Main "HOL-Library.Sublist"
begin

section \<open>JavaScript numbers\<close>

text \<open>
  The benchmark computes with JavaScript numbers. Finite numbers are idealised as reals
  (no rounding, no negative zero); the values that a division by zero or a read outside an
  array produce are kept apart, because the statistics can reach them:
  \<open>PosInf\<close>, \<open>NegInf\<close>, \<open>NaN\<close>, and \<open>Undefined\<close> for a missing array element or field.
  Arithmetic converts \<open>Undefined\<close> to \<open>NaN\<close>, as \<open>ToNumber\<close> does.
\<close>

datatype jsval = Num real | PosInf | NegInf | NaN | Undefined

fun js_neg :: "jsval \<Rightarrow> jsval" where
  "js_neg (Num a) = Num (- a)"
| "js_neg PosInf = NegInf"
| "js_neg NegInf = PosInf"
| "js_neg NaN = NaN"
| "js_neg Undefined = NaN"

fun js_add :: "jsval \<Rightarrow> jsval \<Rightarrow> jsval" where
  "js_add (Num a) (Num b) = Num (a + b)"
| "js_add NaN _ = NaN"
| "js_add Undefined _ = NaN"
| "js_add _ NaN = NaN"
| "js_add _ Undefined = NaN"
| "js_add PosInf NegInf = NaN"
| "js_add NegInf PosInf = NaN"
| "js_add PosInf _ = PosInf"
| "js_add NegInf _ = NegInf"
| "js_add _ PosInf = PosInf"
| "js_add _ NegInf = NegInf"

definition js_sub :: "jsval \<Rightarrow> jsval \<Rightarrow> jsval" where
  "js_sub a b = js_add a (js_neg b)"

text \<open>The sign of a product or quotient whose magnitude is infinite.\<close>

definition inf_of_sign :: "bool \<Rightarrow> jsval" where
  "inf_of_sign positive = (if positive then PosInf else NegInf)"

fun js_mul :: "jsval \<Rightarrow> jsval \<Rightarrow> jsval" where
  "js_mul (Num a) (Num b) = Num (a * b)"
| "js_mul NaN _ = NaN"
| "js_mul Undefined _ = NaN"
| "js_mul _ NaN = NaN"
| "js_mul _ Undefined = NaN"
| "js_mul PosInf (Num b) = (if b = 0 then NaN else inf_of_sign (0 < b))"
| "js_mul NegInf (Num b) = (if b = 0 then NaN else inf_of_sign (b < 0))"
| "js_mul (Num a) PosInf = (if a = 0 then NaN else inf_of_sign (0 < a))"
| "js_mul (Num a) NegInf = (if a = 0 then NaN else inf_of_sign (a < 0))"
| "js_mul PosInf PosInf = PosInf"
| "js_mul PosInf NegInf = NegInf"
| "js_mul NegInf PosInf = NegInf"
| "js_mul NegInf NegInf = PosInf"

text \<open>
  Division: a finite non-zero number over zero is an infinity of the numerator's sign and
  zero over zero is \<open>NaN\<close> (every zero divisor of the program is a positive zero).
\<close>

fun js_div :: "jsval \<Rightarrow> jsval \<Rightarrow> jsval" where
  "js_div (Num a) (Num b) =
     (if b = 0 then (if a = 0 then NaN else inf_of_sign (0 < a)) else Num (a / b))"
| "js_div NaN _ = NaN"
| "js_div Undefined _ = NaN"
| "js_div _ NaN = NaN"
| "js_div _ Undefined = NaN"
| "js_div (Num a) PosInf = Num 0"
| "js_div (Num a) NegInf = Num 0"
| "js_div PosInf (Num b) = inf_of_sign (0 \<le> b)"
| "js_div NegInf (Num b) = inf_of_sign (b < 0)"
| "js_div PosInf PosInf = NaN"
| "js_div PosInf NegInf = NaN"
| "js_div NegInf PosInf = NaN"
| "js_div NegInf NegInf = NaN"

text \<open>\<open>isNaN(v)\<close>, \<open>v > 0\<close> and the truthiness of a number.\<close>

fun isNaN :: "jsval \<Rightarrow> bool" where
  "isNaN NaN = True"
| "isNaN Undefined = True"
| "isNaN _ = False"

fun js_gt0 :: "jsval \<Rightarrow> bool" where
  "js_gt0 (Num a) = (0 < a)"
| "js_gt0 PosInf = True"
| "js_gt0 _ = False"

fun js_truthy :: "jsval \<Rightarrow> bool" where
  "js_truthy (Num a) = (a \<noteq> 0)"
| "js_truthy PosInf = True"
| "js_truthy NegInf = True"
| "js_truthy NaN = False"
| "js_truthy Undefined = False"

text \<open>
  \<open>a >= v\<close> and \<open>a > v\<close> for a finite number \<open>a\<close>: false against \<open>NaN\<close> and \<open>Infinity\<close>, true
  against \<open>-Infinity\<close>.
\<close>

fun num_ge :: "real \<Rightarrow> jsval \<Rightarrow> bool" where
  "num_ge a (Num b) = (a \<ge> b)"
| "num_ge a NegInf = True"
| "num_ge a _ = False"

fun num_gt :: "real \<Rightarrow> jsval \<Rightarrow> bool" where
  "num_gt a (Num b) = (a > b)"
| "num_gt a NegInf = True"
| "num_gt a _ = False"

text \<open>\<open>v || 0\<close> on a number.\<close>

definition js_or0 :: "jsval \<Rightarrow> jsval" where
  "js_or0 v = (if js_truthy v then v else Num 0)"

text \<open>\<open>arr[i]\<close>: the element, or \<open>undefined\<close> outside the array.\<close>

definition js_get :: "real list \<Rightarrow> int \<Rightarrow> jsval" where
  "js_get arr i = (if 0 \<le> i \<and> i < int (length arr) then Num (arr ! nat i) else Undefined)"

text \<open>\<open>arr.reduce((sum, t) => sum + t, 0)\<close>.\<close>

definition js_sum :: "jsval list \<Rightarrow> jsval" where
  "js_sum xs = foldl js_add (Num 0) xs"

section \<open>Request records\<close>

datatype provider = OpenAI | Portkey

text \<open>
  The object \<open>makeRequest\<close> returns. \<open>None\<close> is \<open>null\<close> for the two derived times and an
  absent field for \<open>error\<close> and \<open>errorType\<close>. The \<open>timestamp\<close> string is not modelled.
\<close>

record request_record =
  provider :: provider
  totalTime :: real
  openaiProcessingTime :: "jsval option"
  networkLatency :: "jsval option"
  success :: bool
  error :: "string option"
  errorType :: "string option"
  tokensUsed :: nat
  promptTokens :: nat
  completionTokens :: nat

section \<open>Statistics: \<open>calculateStats\<close>\<close>

text \<open>
  The object \<open>calculateStats\<close> returns. The literal returned when nothing succeeded has no
  \<open>successfulCount\<close> and no \<open>failedCount\<close> field: they are \<open>None\<close> there.
\<close>

record stats =
  count :: nat
  successfulCount :: "nat option"
  failedCount :: "nat option"
  successRate :: jsval
  failureRate :: jsval
  avgTotalTime :: jsval
  avgOpenAITime :: jsval
  avgNetworkLatency :: jsval
  medianTotalTime :: jsval
  p95TotalTime :: jsval
  p99TotalTime :: jsval
  minTotalTime :: jsval
  maxTotalTime :: jsval
  totalTokens :: nat
  avgTokensPerRequest :: jsval

text \<open>The helper \<open>calculatePercentile\<close> of \<open>calculateStats\<close>, branch by branch.\<close>

definition calculatePercentile :: "real list \<Rightarrow> real \<Rightarrow> jsval" where
  "calculatePercentile sortedArray percentile =
     (if length sortedArray = 0 then Num 0
      else if length sortedArray = 1 then js_get sortedArray 0
      else
        let index = (percentile / 100) * real (length sortedArray - 1);
            lower = \<lfloor>index\<rfloor>;
            upper = \<lceil>index\<rceil>
        in if lower = upper then js_get sortedArray lower
           else
             let weight = index - real_of_int lower
             in js_add (js_mul (js_get sortedArray lower) (Num (1 - weight)))
                       (js_mul (js_get sortedArray upper) (Num weight)))"

text \<open>
  The percentile as the specification words it: \<open>index = p/100 \<times> (n - 1)\<close>; the element
  at \<open>index\<close> when it is integral, otherwise the floor and ceiling elements interpolated
  with the fractional part as weight.
\<close>

definition spec_percentile :: "real list \<Rightarrow> real \<Rightarrow> real" where
  "spec_percentile arr p =
     (let index = p / 100 * real (length arr - 1)
      in if frac index = 0 then arr ! nat \<lfloor>index\<rfloor>
         else arr ! nat \<lfloor>index\<rfloor> * (1 - frac index) + arr ! nat \<lceil>index\<rceil> * frac index)"

text \<open>The values of a field that are not \<open>null\<close>: \<open>.map(...).filter(t => t !== null)\<close>.\<close>

definition non_null :: "'a option list \<Rightarrow> 'a list" where
  "non_null xs = map the (filter (\<lambda>t. t \<noteq> None) xs)"

definition calculateStats :: "request_record list \<Rightarrow> stats" where
  "calculateStats results =
     (let successfulResults = filter success results;
          failedResults = filter (\<lambda>r. \<not> success r) results
      in if length successfulResults = 0 then
           \<lparr> count = 0, successfulCount = None, failedCount = None,
             successRate = Num 0, failureRate = Num 100,
             avgTotalTime = Num 0, avgOpenAITime = Num 0, avgNetworkLatency = Num 0,
             medianTotalTime = Num 0, p95TotalTime = Num 0, p99TotalTime = Num 0,
             minTotalTime = Num 0, maxTotalTime = Num 0,
             totalTokens = 0, avgTokensPerRequest = Num 0 \<rparr>
         else
           let totalTimes = sort (map totalTime successfulResults);
               openaiTimes = non_null (map openaiProcessingTime successfulResults);
               networkLatencies = non_null (map networkLatency successfulResults);
               totalTokens = foldl (\<lambda>sum r. sum + tokensUsed r) 0 successfulResults
           in \<lparr> count = length results,
                successfulCount = Some (length successfulResults),
                failedCount = Some (length failedResults),
                successRate = js_mul (js_div (Num (real (length successfulResults)))
                                             (Num (real (length results)))) (Num 100),
                failureRate = js_mul (js_div (Num (real (length failedResults)))
                                             (Num (real (length results)))) (Num 100),
                avgTotalTime = js_div (js_sum (map Num totalTimes))
                                      (Num (real (length totalTimes))),
                avgOpenAITime =
                  (if length openaiTimes > 0
                   then js_div (js_sum openaiTimes) (Num (real (length openaiTimes)))
                   else Num 0),
                avgNetworkLatency =
                  (if length networkLatencies > 0
                   then js_div (js_sum networkLatencies) (Num (real (length networkLatencies)))
                   else Num 0),
                medianTotalTime = calculatePercentile totalTimes 50,
                p95TotalTime = calculatePercentile totalTimes 95,
                p99TotalTime = calculatePercentile totalTimes 99,
                minTotalTime = js_or0 (js_get totalTimes 0),
                maxTotalTime = js_or0 (js_get totalTimes (int (length totalTimes) - 1)),
                totalTokens = totalTokens,
                avgTokensPerRequest = js_div (Num (real totalTokens))
                                             (Num (real (length successfulResults))) \<rparr>)"

section \<open>The Request Executor: \<open>makeRequest\<close>\<close>

text \<open>
  A prompt is a string, an array of messages (role and content), missing (\<open>undefined\<close>,
  \<open>null\<close> or another falsy value that is not a string), or some other truthy value that
  is neither a string nor an array. Strings are sequences of code units.
\<close>

type_synonym message = "string \<times> string"

datatype prompt = PromptString string | PromptMessages "message list" | PromptMissing | PromptOther

text \<open>
  The response headers as \<open>extractOpenAIProcessingTime\<close> reads them: through the \<open>get\<close>
  method when the object has one and through a property read otherwise, and through
  \<open>entries()\<close> when the object has it. A lookup that yields \<open>undefined\<close> or \<open>null\<close> is
  \<open>None\<close>.
\<close>

record headers =
  hget :: "(string \<Rightarrow> string option) option"
  hindex :: "string \<Rightarrow> string option"
  hentries :: "(string \<times> string) list option"

record usage =
  total_tokens :: "nat option"
  prompt_tokens :: "nat option"
  completion_tokens :: "nat option"

text \<open>
  What \<open>client.chat.completions.create(...).withResponse()\<close> settles to: the response data
  (its \<open>usage\<close>, when reported) with the headers of the raw response (\<open>response?.headers\<close>,
  when there are any), or an error with its message.
\<close>

datatype completer_outcome = Resolved "usage option" "headers option" | Rejected string

definition processingTimeHeaders :: "string list" where
  "processingTimeHeaders =
     [''openai-processing-ms'', ''x-openai-processing-ms'', ''openai-processing-time-ms'',
      ''x-processing-time-ms'', ''processing-time-ms'', ''x-request-time-ms'',
      ''x-processing-time'', ''x-request-time'', ''request-time'', ''processing-time'']"

text \<open>\<open>s.includes(sub)\<close> and \<open>s.toLowerCase()\<close> (on the ASCII letters of a header name).\<close>

definition str_includes :: "string \<Rightarrow> string \<Rightarrow> bool" where
  "str_includes s sub = sublist sub s"

definition lower_char :: "char \<Rightarrow> char" where
  "lower_char c =
     (let n = (of_char c :: nat) in if 65 \<le> n \<and> n \<le> 90 then char_of (n + 32) else c)"

definition toLowerCase :: "string \<Rightarrow> string" where
  "toLowerCase s = map lower_char s"

definition header_value :: "headers \<Rightarrow> string \<Rightarrow> string option" where
  "header_value h header = (case hget h of Some get \<Rightarrow> get header | None \<Rightarrow> hindex h header)"

text \<open>
  The two loops of \<open>extractOpenAIProcessingTime\<close>. \<open>parseFloat\<close> is the built-in of the
  language and is a parameter of the model.
\<close>

fun try_headers :: "(string \<Rightarrow> jsval) \<Rightarrow> headers \<Rightarrow> string list \<Rightarrow> jsval option" where
  "try_headers parseFloat h [] = None"
| "try_headers parseFloat h (header # rest) =
     (case header_value h header of
        Some v \<Rightarrow>
          (let timeMs = parseFloat v
           in if \<not> isNaN timeMs \<and> js_gt0 timeMs then Some timeMs
              else try_headers parseFloat h rest)
      | None \<Rightarrow> try_headers parseFloat h rest)"

fun scan_entries :: "(string \<Rightarrow> jsval) \<Rightarrow> (string \<times> string) list \<Rightarrow> jsval option" where
  "scan_entries parseFloat [] = None"
| "scan_entries parseFloat ((key, v) # rest) =
     (let lowerKey = toLowerCase key
      in if str_includes lowerKey ''processing''
            \<and> (str_includes lowerKey ''ms'' \<or> str_includes lowerKey ''time'')
         then (let timeMs = parseFloat v
               in if \<not> isNaN timeMs \<and> js_gt0 timeMs then Some timeMs
                  else scan_entries parseFloat rest)
         else scan_entries parseFloat rest)"

definition extractOpenAIProcessingTime :: "(string \<Rightarrow> jsval) \<Rightarrow> headers option \<Rightarrow> jsval option" where
  "extractOpenAIProcessingTime parseFloat response =
     (case response of
        None \<Rightarrow> None
      | Some h \<Rightarrow>
          (case try_headers parseFloat h processingTimeHeaders of
             Some timeMs \<Rightarrow> Some timeMs
           | None \<Rightarrow>
               (case hentries h of
                  Some entries \<Rightarrow> scan_entries parseFloat entries
                | None \<Rightarrow> None)))"

text \<open>The error category of the \<open>catch\<close> branch of \<open>makeRequest\<close>.\<close>

definition errorType_of :: "string \<Rightarrow> string" where
  "errorType_of msg =
     (if str_includes msg ''rate limit'' \<or> str_includes msg ''429'' then ''rate_limit''
      else if str_includes msg ''timeout'' \<or> str_includes msg ''ECONNRESET'' then ''timeout''
      else if str_includes msg ''ECONNREFUSED'' then ''connection_refused''
      else ''unknown'')"

text \<open>\<open>usage?.field || 0\<close>.\<close>

definition tokens_or0 :: "usage option \<Rightarrow> (usage \<Rightarrow> nat option) \<Rightarrow> nat" where
  "tokens_or0 u field = (case u of None \<Rightarrow> 0 | Some us \<Rightarrow> (case field us of None \<Rightarrow> 0 | Some n \<Rightarrow> n))"

text \<open>The truthiness of \<open>openaiProcessingTime\<close>, a number or \<open>null\<close>.\<close>

definition time_truthy :: "jsval option \<Rightarrow> bool" where
  "time_truthy t = (case t of None \<Rightarrow> False | Some v \<Rightarrow> js_truthy v)"

text \<open>
  \<open>makeRequest\<close>, given the two readings of the clock and what the completer settles to.
  A prompt that is neither a string nor an array throws inside the \<open>try\<close> before the
  completer is called, and is caught like a completer error.
\<close>

definition makeRequest ::
  "(string \<Rightarrow> jsval) \<Rightarrow> prompt \<Rightarrow> provider \<Rightarrow> real \<Rightarrow> completer_outcome \<Rightarrow> real \<Rightarrow> request_record" where
  "makeRequest parseFloat prompt prov startTime outcome endTime =
     (let attempt =
            (case prompt of
               PromptString _ \<Rightarrow> outcome
             | PromptMessages _ \<Rightarrow> outcome
             | _ \<Rightarrow> Rejected ''Prompt must be either a string or an array of message objects'')
      in case attempt of
           Resolved responseUsage rawHeaders \<Rightarrow>
             (let totalTime = endTime - startTime;
                  openaiProcessingTime = extractOpenAIProcessingTime parseFloat rawHeaders
              in \<lparr> provider = prov,
                   totalTime = totalTime,
                   openaiProcessingTime = openaiProcessingTime,
                   networkLatency =
                     (if time_truthy openaiProcessingTime
                      then Some (js_sub (Num totalTime) (the openaiProcessingTime))
                      else None),
                   success = True,
                   error = None,
                   errorType = None,
                   tokensUsed = tokens_or0 responseUsage total_tokens,
                   promptTokens = tokens_or0 responseUsage prompt_tokens,
                   completionTokens = tokens_or0 responseUsage completion_tokens \<rparr>)
         | Rejected msg \<Rightarrow>
             \<lparr> provider = prov,
               totalTime = endTime - startTime,
               openaiProcessingTime = None,
               networkLatency = None,
               success = False,
               error = Some msg,
               errorType = Some (errorType_of msg),
               tokensUsed = 0,
               promptTokens = 0,
               completionTokens = 0 \<rparr>)"

section \<open>Run configuration and provider selection\<close>

text \<open>
  What \<open>JSON.parse\<close> can leave in one of the three limit fields \<open>concurrency\<close>,
  \<open>maxRequests\<close> and \<open>testDuration\<close>: nothing (the field is missing or \<open>null\<close>), a number
  that is a finite double, a number beyond the doubles such as \<open>1e999\<close>, which is parsed to
  \<open>Infinity\<close> (\<open>JOverflow True\<close>) or \<open>-Infinity\<close>, or a value that is not a number (a string,
  a boolean, an array, an object), given by its truthiness and by the number that a
  comparison converts it to (\<open>NaN\<close> for \<open>"abc"\<close>, 60 for \<open>"60"\<close>).
\<close>

datatype limit = Missing | JNumber real | JOverflow bool | JOther bool jsval

fun limit_truthy :: "limit \<Rightarrow> bool" where
  "limit_truthy Missing = False"
| "limit_truthy (JNumber r) = (r \<noteq> 0)"
| "limit_truthy (JOverflow positive) = True"
| "limit_truthy (JOther truthy n) = truthy"

fun limit_number :: "limit \<Rightarrow> jsval" where
  "limit_number Missing = NaN"
| "limit_number (JNumber r) = Num r"
| "limit_number (JOverflow positive) = inf_of_sign positive"
| "limit_number (JOther truthy n) = n"

text \<open>
  The fields of the configuration object that the engine reads. A string field that the
  JSON file does not have is \<open>None\<close>.
\<close>

record config =
  mode :: "string option"
  prompt :: prompt
  concurrency :: limit
  maxRequests :: limit
  testDuration :: limit
  portkeyApiKey :: "string option"
  openaiApiKey :: "string option"

text \<open>Truthiness of an optional string and of a prompt.\<close>

definition str_truthy :: "string option \<Rightarrow> bool" where
  "str_truthy s = (case s of None \<Rightarrow> False | Some v \<Rightarrow> v \<noteq> [])"

fun prompt_truthy :: "prompt \<Rightarrow> bool" where
  "prompt_truthy (PromptString s) = (s \<noteq> [])"
| "prompt_truthy (PromptMessages _) = True"
| "prompt_truthy PromptMissing = False"
| "prompt_truthy PromptOther = True"

text \<open>
  \<open>x || d\<close> on a limit field: a truthy value is kept as it is, whatever it is. And
  \<open>config.mode || 'comparison'\<close>.
\<close>

definition limit_or :: "limit \<Rightarrow> real \<Rightarrow> limit" where
  "limit_or x d = (if limit_truthy x then x else JNumber d)"

definition mode_or_comparison :: "config \<Rightarrow> string" where
  "mode_or_comparison cfg = (if str_truthy (mode cfg) then the (mode cfg) else ''comparison'')"

text \<open>Every \<open>throw\<close> of the program, by site.\<close>

datatype bench_error =
    InvalidMode string
  | MissingPrompt
  | MissingPortkeyApiKey string
  | MissingOpenaiApiKey
  | AllProvidersFailed "string list"
  | SomeProvidersFailed "string list"

text \<open>
  \<open>determineProvidersFromMode\<close>: the pair \<open>(shouldTestOpenAI, shouldTestPortkey)\<close>, or the
  error of the \<open>default\<close> case.
\<close>

definition determineProvidersFromMode :: "config \<Rightarrow> bench_error + bool \<times> bool" where
  "determineProvidersFromMode cfg =
     (let m = mode_or_comparison cfg
      in if m = ''comparison'' then Inr (True, True)
         else if m = ''loadtest'' then Inr (False, True)
         else Inl (InvalidMode m))"

section \<open>The Preflight Validator: \<open>runPreflightTest\<close>\<close>

text \<open>
  What one probe call of \<open>makeRequest\<close> gives \<open>runPreflightTest\<close>: the record it returns, or
  an exception, which the \<open>catch\<close> turns into \<open>{ success: false, error: ... }\<close>.
\<close>

datatype probe = Returned request_record | Threw string

text \<open>\<open>testResults.x && testResults.x.success\<close>, and the same with a processing time.\<close>

fun probe_success :: "probe option \<Rightarrow> bool" where
  "probe_success (Some (Returned r)) = success r"
| "probe_success _ = False"

fun probe_hasProcessingTime :: "probe option \<Rightarrow> bool" where
  "probe_hasProcessingTime (Some (Returned r)) = (success r \<and> openaiProcessingTime r \<noteq> None)"
| "probe_hasProcessingTime _ = False"

text \<open>The warning that the last part of \<open>runPreflightTest\<close> prints, by branch.\<close>

datatype preflight_warning = ComparisonLessAccurate "string list" | LatencyLimited string

record preflight_result =
  pre_openaiEnabled :: bool
  pre_portkeyEnabled :: bool
  testResults_openai :: "probe option"
  testResults_portkey :: "probe option"
  pre_warning :: "preflight_warning option"

definition testPrompt_of :: "prompt \<Rightarrow> prompt" where
  "testPrompt_of p =
     (case p of
        PromptString s \<Rightarrow> PromptString (take 100 s @ (if length s > 100 then ''...'' else []))
      | _ \<Rightarrow> p)"

text \<open>
  \<open>runPreflightTest\<close>. The parameter \<open>request\<close> is the Request Executor with its
  environment; the first component of the result lists the calls made to it, in order.
\<close>

definition runPreflightTest ::
  "config \<Rightarrow> bool \<Rightarrow> bool \<Rightarrow> (provider \<Rightarrow> prompt \<Rightarrow> probe)
     \<Rightarrow> (provider \<times> prompt) list \<times> (bench_error + preflight_result)" where
  "runPreflightTest cfg shouldTestOpenAI shouldTestPortkey request =
     (let testPrompt = testPrompt_of (prompt cfg);
          testOpenai = (if shouldTestOpenAI then Some (request OpenAI testPrompt) else None);
          testPortkey = (if shouldTestPortkey then Some (request Portkey testPrompt) else None);
          calls = (if shouldTestOpenAI then [(OpenAI, testPrompt)] else [])
                  @ (if shouldTestPortkey then [(Portkey, testPrompt)] else []);
          openaiSuccess = probe_success testOpenai;
          portkeySuccess = probe_success testPortkey;
          enabledProviders = (if shouldTestOpenAI then [''OpenAI''] else [])
                             @ (if shouldTestPortkey then [''Portkey''] else []);
          failedProviders = (if shouldTestOpenAI \<and> \<not> openaiSuccess then [''OpenAI''] else [])
                            @ (if shouldTestPortkey \<and> \<not> portkeySuccess then [''Portkey''] else [])
      in if length failedProviders = length enabledProviders
         then (calls, Inl (AllProvidersFailed failedProviders))
         else if length failedProviders > 0
         then (calls, Inl (SomeProvidersFailed failedProviders))
         else
           let openaiHasProcessingTime = probe_hasProcessingTime testOpenai;
               portkeyHasProcessingTime = probe_hasProcessingTime testPortkey;
               warn =
                 (if mode_or_comparison cfg = ''comparison''
                  then (if shouldTestOpenAI \<and> shouldTestPortkey
                           \<and> (\<not> openaiHasProcessingTime \<or> \<not> portkeyHasProcessingTime)
                        then Some (ComparisonLessAccurate
                                    ((if \<not> openaiHasProcessingTime then [''OpenAI''] else [])
                                     @ (if \<not> portkeyHasProcessingTime then [''Portkey''] else [])))
                        else None)
                  else (let enabledProvider = (if shouldTestOpenAI then ''OpenAI'' else ''Portkey'');
                            hasProcessingTime = (if shouldTestOpenAI then openaiHasProcessingTime
                                                 else portkeyHasProcessingTime)
                        in if \<not> hasProcessingTime then Some (LatencyLimited enabledProvider)
                           else None))
           in (calls,
               Inr \<lparr> pre_openaiEnabled = (shouldTestOpenAI \<and> openaiSuccess),
                     pre_portkeyEnabled = (shouldTestPortkey \<and> portkeySuccess),
                     testResults_openai = testOpenai,
                     testResults_portkey = testPortkey,
                     pre_warning = warn \<rparr>))"

section \<open>The report: \<open>generateReport\<close>\<close>

record comparison =
  latencyOverhead :: jsval
  latencyOverheadPercentage :: jsval
  networkLatencyDiff :: jsval
  successRateDiff :: jsval

record summary =
  totalRequests :: nat
  openaiStats :: stats
  portkeyStats :: stats
  comparison :: "comparison option"

text \<open>The \<open>summary\<close> that \<open>generateReport\<close> builds from the two result arrays.\<close>

definition generateReport :: "config \<Rightarrow> request_record list \<Rightarrow> request_record list \<Rightarrow> summary" where
  "generateReport cfg resultsOpenai resultsPortkey =
     (let openaiSt = calculateStats resultsOpenai;
          portkeySt = calculateStats resultsPortkey
      in \<lparr> totalRequests = max (length resultsOpenai) (length resultsPortkey),
           openaiStats = openaiSt,
           portkeyStats = portkeySt,
           comparison =
             (if mode_or_comparison cfg = ''comparison''
                 \<and> length resultsOpenai > 0 \<and> length resultsPortkey > 0
              then Some
                \<lparr> latencyOverhead = js_sub (avgTotalTime portkeySt) (avgTotalTime openaiSt),
                  latencyOverheadPercentage =
                    js_mul (js_div (js_sub (avgTotalTime portkeySt) (avgTotalTime openaiSt))
                                   (avgTotalTime openaiSt)) (Num 100),
                  networkLatencyDiff =
                    js_sub (avgNetworkLatency portkeySt) (avgNetworkLatency openaiSt),
                  successRateDiff = js_sub (successRate portkeySt) (successRate openaiSt) \<rparr>
              else None) \<rparr>)"

section \<open>The Worker Pool: \<open>runConcurrentRequests\<close>\<close>

text \<open>\<open>this.sharedState\<close>, as \<open>runBenchmark\<close> creates it.\<close>

record shared_state =
  requestCount :: nat
  shouldStop :: bool
  maxRequestsReached :: bool
  timeLimit :: bool

text \<open>
  A worker is one call of the async function \<open>runConcurrentRequests\<close>. JavaScript runs it
  without interruption from one \<open>await\<close> to the next, so a worker is always at one of its
  suspension points: about to run the head of the loop (it has just been started, or its
  delay has elapsed), awaiting the requests of the round whose number it captured, or
  returned. The checks of the stop conditions, the increment of the counter and the reading
  of its new value lie in one such segment: the function has no \<open>await\<close> between them.
\<close>

datatype worker = AtLoopHead | Awaiting nat | Finished

text \<open>
  The state that the workers share: the shared run state, the two result arrays, and where
  each worker is. Two traces are kept with it: \<open>issued\<close>, the calls of \<open>makeRequest\<close> in
  order, and \<open>captured\<close>, the values bound to \<open>currentRequestNumber\<close> with the worker
  that bound them.
\<close>

record pool =
  sharedState :: shared_state
  workers :: "worker list"
  results_openai :: "request_record list"
  results_portkey :: "request_record list"
  issued :: "(provider \<times> prompt) list"
  captured :: "(nat \<times> nat) list"

text \<open>
  What is fixed during the load phase: the configuration, the start time and the two flags
  that \<open>runBenchmark\<close> stores after the preflight, which the workers read and never
  write, and the number of workers that \<open>runBenchmark\<close> has started.
\<close>

record bench =
  b_config :: config
  b_startTime :: real
  b_openaiEnabled :: bool
  b_portkeyEnabled :: bool
  b_workers :: nat

text \<open>
  From the head of the loop to the next suspension point, for the worker \<open>workerId\<close> that
  reads the clock as \<open>currentTime\<close>: the worker returns, or it increments the counter,
  starts one request per enabled provider and awaits them.
\<close>

definition loop_head :: "bench \<Rightarrow> nat \<Rightarrow> real \<Rightarrow> pool \<Rightarrow> pool" where
  "loop_head b workerId currentTime p =
     (let st = sharedState p; cfg = b_config b
      in if shouldStop st then p\<lparr>workers := (workers p)[workerId := Finished]\<rparr>
         else
           let elapsedTime = (currentTime - b_startTime b) / 1000
           in if limit_truthy (testDuration cfg)
                 \<and> num_ge elapsedTime (limit_number (testDuration cfg))
              then p\<lparr>sharedState := st\<lparr>shouldStop := True, timeLimit := True\<rparr>,
                     workers := (workers p)[workerId := Finished]\<rparr>
              else if limit_truthy (maxRequests cfg)
                      \<and> num_ge (real (requestCount st)) (limit_number (maxRequests cfg))
              then p\<lparr>sharedState := st\<lparr>shouldStop := True, maxRequestsReached := True\<rparr>,
                     workers := (workers p)[workerId := Finished]\<rparr>
              else
                let st' = st\<lparr>requestCount := requestCount st + 1\<rparr>;
                    currentRequestNumber = requestCount st'
                in if limit_truthy (maxRequests cfg)
                      \<and> num_gt (real currentRequestNumber) (limit_number (maxRequests cfg))
                   then p\<lparr>sharedState := st'\<lparr>shouldStop := True, maxRequestsReached := True\<rparr>,
                          captured := captured p @ [(workerId, currentRequestNumber)],
                          workers := (workers p)[workerId := Finished]\<rparr>
                   else p\<lparr>sharedState := st',
                          captured := captured p @ [(workerId, currentRequestNumber)],
                          issued := issued p
                            @ (if b_openaiEnabled b then [(OpenAI, prompt cfg)] else [])
                            @ (if b_portkeyEnabled b then [(Portkey, prompt cfg)] else []),
                          workers := (workers p)[workerId := Awaiting currentRequestNumber]\<rparr>)"

text \<open>
  From the settling of \<open>Promise.all(requests)\<close> to the delay: the records that
  \<open>makeRequest\<close> resolved to are pushed, one per enabled provider.
\<close>

definition settle :: "bench \<Rightarrow> nat \<Rightarrow> (provider \<Rightarrow> request_record) \<Rightarrow> pool \<Rightarrow> pool" where
  "settle b workerId res p =
     p\<lparr>results_openai := results_openai p @ (if b_openaiEnabled b then [res OpenAI] else []),
       results_portkey := results_portkey p @ (if b_portkeyEnabled b then [res Portkey] else []),
       workers := (workers p)[workerId := AtLoopHead]\<rparr>"

text \<open>
  The event loop resumes one worker at a time. \<open>Tick w now\<close> resumes worker \<open>w\<close> at the
  head of the loop with the clock at \<open>now\<close>; \<open>Settle w res\<close> resumes it with the records
  of its round. An event for a worker that is not at that suspension point changes nothing.
  Every order of the events is a schedule, among them the one of the program, where
  \<open>runBenchmark\<close> starts the workers one after the other before any request settles.
\<close>

datatype event = Tick nat real | Settle nat "provider \<Rightarrow> request_record"

definition step :: "bench \<Rightarrow> pool \<Rightarrow> event \<Rightarrow> pool" where
  "step b p ev =
     (case ev of
        Tick w now \<Rightarrow>
          (if w < length (workers p) \<and> workers p ! w = AtLoopHead then loop_head b w now p else p)
      | Settle w res \<Rightarrow>
          (if w < length (workers p)
           then (case workers p ! w of Awaiting n \<Rightarrow> settle b w res p | _ \<Rightarrow> p)
           else p))"

text \<open>
  The workers that the loop \<open>for (let i = 0; i < this.config.concurrency; i++)\<close> starts:
  one for each \<open>i = 0, 1, ...\<close> below the number that the comparison converts the field to,
  so none for \<open>NaN\<close> (a missing field) and for \<open>-Infinity\<close>. For \<open>Infinity\<close> the loop never
  ends: \<open>None\<close>.
\<close>

definition worker_count :: "limit \<Rightarrow> nat option" where
  "worker_count c =
     (case limit_number c of
        Num n \<Rightarrow> Some (nat \<lceil>n\<rceil>)
      | PosInf \<Rightarrow> None
      | _ \<Rightarrow> Some 0)"

text \<open>The state of the pool when \<open>n\<close> workers have been started and none has run.\<close>

definition init_pool :: "nat \<Rightarrow> pool" where
  "init_pool n =
     \<lparr> sharedState = \<lparr> requestCount = 0, shouldStop = False,
                       maxRequestsReached = False, timeLimit = False \<rparr>,
       workers = replicate n AtLoopHead,
       results_openai = [],
       results_portkey = [],
       issued = [],
       captured = [] \<rparr>"

definition run_pool :: "bench \<Rightarrow> event list \<Rightarrow> pool" where
  "run_pool b evs = foldl (step b) (init_pool (b_workers b)) evs"

definition all_finished :: "pool \<Rightarrow> bool" where
  "all_finished p = list_all (\<lambda>w. w = Finished) (workers p)"

section \<open>\<open>runBenchmark\<close> and \<open>main\<close>\<close>

text \<open>
  A run fails with an error, never ends the loop that starts its workers, is still waiting
  for its workers at the end of the schedule of events, or has completed with the report
  of \<open>generateReport\<close>.
\<close>

datatype run_result = Failed bench_error | StartsForever | Pending pool | Completed pool summary

text \<open>
  \<open>runBenchmark\<close>: the preflight, then the pool, then the report. The first component of
  the result lists every call of the Request Executor, the probes first. When the loop
  that starts the workers never ends, \<open>runBenchmark\<close> never awaits them; the model then
  lists the probes only and does not follow the workers.
\<close>

definition runBenchmark ::
  "config \<Rightarrow> bool \<Rightarrow> bool \<Rightarrow> (provider \<Rightarrow> prompt \<Rightarrow> probe) \<Rightarrow> real \<Rightarrow> event list
     \<Rightarrow> (provider \<times> prompt) list \<times> run_result" where
  "runBenchmark cfg shouldTestOpenAI shouldTestPortkey request startTime events =
     (case runPreflightTest cfg shouldTestOpenAI shouldTestPortkey request of
        (calls, Inl e) \<Rightarrow> (calls, Failed e)
      | (calls, Inr preflightResults) \<Rightarrow>
          (case worker_count (concurrency cfg) of
             None \<Rightarrow> (calls, StartsForever)
           | Some n \<Rightarrow>
               (let b = \<lparr> b_config = cfg, b_startTime = startTime,
                          b_openaiEnabled = pre_openaiEnabled preflightResults,
                          b_portkeyEnabled = pre_portkeyEnabled preflightResults,
                          b_workers = n \<rparr>;
                    final = run_pool b events
                in (calls @ issued final,
                    if all_finished final
                    then Completed final
                           (generateReport cfg (results_openai final) (results_portkey final))
                    else Pending final))))"

text \<open>The validation of \<open>main\<close> and its defaults.\<close>

definition main_validate :: "config \<Rightarrow> bench_error + unit" where
  "main_validate cfg =
     (let m = mode_or_comparison cfg
      in if \<not> prompt_truthy (prompt cfg) then Inl MissingPrompt
         else if m = ''comparison'' then
           (if \<not> str_truthy (portkeyApiKey cfg) then Inl (MissingPortkeyApiKey m)
            else if \<not> str_truthy (openaiApiKey cfg) then Inl MissingOpenaiApiKey
            else Inr ())
         else if m = ''loadtest'' then
           (if \<not> str_truthy (portkeyApiKey cfg) then Inl (MissingPortkeyApiKey m) else Inr ())
         else Inl (InvalidMode m))"

definition main_defaults :: "config \<Rightarrow> config" where
  "main_defaults cfg =
     cfg\<lparr> concurrency := limit_or (concurrency cfg) 5,
          maxRequests := limit_or (maxRequests cfg) 100,
          testDuration := limit_or (testDuration cfg) 60 \<rparr>"

text \<open>
  \<open>main\<close> on a parsed configuration: validation, defaults, the constructor (which
  selects the providers) and \<open>runBenchmark\<close>. Every error ends the process.
\<close>

definition main ::
  "config \<Rightarrow> (provider \<Rightarrow> prompt \<Rightarrow> probe) \<Rightarrow> real \<Rightarrow> event list
     \<Rightarrow> (provider \<times> prompt) list \<times> run_result" where
  "main cfg request startTime events =
     (case main_validate cfg of
        Inl e \<Rightarrow> ([], Failed e)
      | Inr _ \<Rightarrow>
          (let cfg' = main_defaults cfg
           in case determineProvidersFromMode cfg' of
                Inl e \<Rightarrow> ([], Failed e)
              | Inr (shouldTestOpenAI, shouldTestPortkey) \<Rightarrow>
                  runBenchmark cfg' shouldTestOpenAI shouldTestPortkey request startTime events))"

section \<open>Example inputs\<close>

text \<open>
  A configuration of comparison mode with concurrency 4 and at most 10 requests, and
  records as \<open>makeRequest\<close> produces them: a request that timed out, for each provider, and
  a request through the proxy that succeeded in 100 ms without a processing-time header.
\<close>

definition example_config :: config where
  "example_config =
     \<lparr> mode = Some ''comparison'', prompt = PromptString ''Hello'',
       concurrency = JNumber 4, maxRequests = JNumber 10, testDuration = JNumber 60,
       portkeyApiKey = Some ''pk-test'', openaiApiKey = Some ''sk-test'' \<rparr>"

definition no_parse :: "string \<Rightarrow> jsval" where
  "no_parse s = NaN"

definition direct_timed_out :: request_record where
  "direct_timed_out =
     makeRequest no_parse (PromptString ''Hello'') OpenAI 0 (Rejected ''Request timeout'') 60000"

definition proxy_timed_out :: request_record where
  "proxy_timed_out =
     makeRequest no_parse (PromptString ''Hello'') Portkey 0 (Rejected ''Request timeout'') 60000"

definition proxy_ok :: request_record where
  "proxy_ok = makeRequest no_parse (PromptString ''Hello'') Portkey 0 (Resolved None None) 100"

text \<open>
  Response headers that report 800 ms of processing time, and a \<open>parseFloat\<close> that reads
  that header value.
\<close>

definition processing_800 :: headers where
  "processing_800 =
     \<lparr> hget = Some (\<lambda>name. if name = ''openai-processing-ms'' then Some ''800'' else None),
       hindex = (\<lambda>name. None),
       hentries = Some [(''openai-processing-ms'', ''800'')] \<rparr>"

definition parse_800 :: "string \<Rightarrow> jsval" where
  "parse_800 s = (if s = ''800'' then Num 800 else NaN)"

text \<open>
  The example configuration with a prompt of 101 characters, and without its \<open>mode\<close>
  field; a Request Executor whose every call throws, and one whose direct request times
  out while the request through the proxy succeeds.
\<close>

definition long_prompt_config :: config where
  "long_prompt_config = example_config\<lparr> prompt := PromptString (replicate 101 CHR ''a'') \<rparr>"

definition no_mode_config :: config where
  "no_mode_config = example_config\<lparr> mode := None \<rparr>"

definition probes_unreachable :: "provider \<Rightarrow> prompt \<Rightarrow> probe" where
  "probes_unreachable prov p = Threw ''Connection error.''"

definition probe_direct_down :: "provider \<Rightarrow> prompt \<Rightarrow> probe" where
  "probe_direct_down prov p =
     (case prov of OpenAI \<Rightarrow> Returned direct_timed_out | Portkey \<Rightarrow> Returned proxy_ok)"

text \<open>
  A bench for the example configuration with both providers enabled, the records of a
  round that succeeds at once, and a schedule of the event loop for four workers: three
  rounds of ticks and settlements, the third cut short by the limit of 10 requests.
\<close>

definition example_bench :: bench where
  "example_bench = \<lparr> b_config = example_config, b_startTime = 0,
                      b_openaiEnabled = True, b_portkeyEnabled = True, b_workers = 4 \<rparr>"

definition round_ok :: "provider \<Rightarrow> request_record" where
  "round_ok prov = makeRequest no_parse (PromptString ''Hello'') prov 0 (Resolved None None) 0"

definition example_schedule :: "event list" where
  "example_schedule =
     [Tick 0 0, Tick 1 0, Tick 2 0, Tick 3 0,
      Settle 0 round_ok, Settle 1 round_ok, Settle 2 round_ok, Settle 3 round_ok,
      Tick 0 100, Tick 1 100, Tick 2 100, Tick 3 100,
      Settle 0 round_ok, Settle 1 round_ok, Settle 2 round_ok, Settle 3 round_ok,
      Tick 0 200, Tick 1 200, Tick 2 200, Tick 3 200,
      Settle 0 round_ok, Settle 1 round_ok,
      Tick 0 300, Tick 1 300]"










section \<open>Invariants of the pool\<close>

text \<open>The number of workers that await a round.\<close>

fun is_awaiting :: "worker \<Rightarrow> nat" where
  "is_awaiting (Awaiting n) = 1"
| "is_awaiting _ = 0"

definition awaiting :: "worker list \<Rightarrow> nat" where
  "awaiting ws = sum_list (map is_awaiting ws)"

text \<open>
  The stop flag is set exactly when a terminal reason is, the two reasons exclude each
  other, and a worker has returned only if the stop flag is set.
\<close>

definition flags_ok :: "pool \<Rightarrow> bool" where
  "flags_ok p \<longleftrightarrow>
     (shouldStop (sharedState p) \<longleftrightarrow>
        maxRequestsReached (sharedState p) \<or> timeLimit (sharedState p))
     \<and> \<not> (maxRequestsReached (sharedState p) \<and> timeLimit (sharedState p))
     \<and> (Finished \<in> set (workers p) \<longrightarrow> shouldStop (sharedState p))"

text \<open>
  Under a limit of \<open>m\<close> requests: the counter is at most \<open>m\<close> and is \<open>m\<close> once the limit
  was reached, and for an enabled provider the records pushed and the rounds awaited add
  up to the counter.
\<close>

definition max_ok :: "nat \<Rightarrow> bench \<Rightarrow> pool \<Rightarrow> bool" where
  "max_ok m b p \<longleftrightarrow>
     requestCount (sharedState p) \<le> m
     \<and> (maxRequestsReached (sharedState p) \<longrightarrow> requestCount (sharedState p) = m)
     \<and> length (results_openai p) + (if b_openaiEnabled b then awaiting (workers p) else 0)
         = (if b_openaiEnabled b then requestCount (sharedState p) else 0)
     \<and> length (results_portkey p) + (if b_portkeyEnabled b then awaiting (workers p) else 0)
         = (if b_portkeyEnabled b then requestCount (sharedState p) else 0)"

text \<open>
  The workers that have not returned, and a measure of what a bounded pool can still do:
  twice the requests left under a limit of \<open>k\<close>, plus the rounds awaited, plus the workers
  that have not returned.
\<close>

fun is_unfinished :: "worker \<Rightarrow> nat" where
  "is_unfinished Finished = 0"
| "is_unfinished _ = 1"

definition unfinished :: "worker list \<Rightarrow> nat" where
  "unfinished ws = sum_list (map is_unfinished ws)"

definition remaining :: "nat \<Rightarrow> pool \<Rightarrow> nat" where
  "remaining k p =
     2 * (k - requestCount (sharedState p)) + awaiting (workers p) + unfinished (workers p)"

text \<open>The number of events of a schedule, run from \<open>p\<close>, that change the state.\<close>

fun changes :: "bench \<Rightarrow> pool \<Rightarrow> event list \<Rightarrow> nat" where
  "changes b p [] = 0"
| "changes b p (ev # evs) = (if step b p ev = p then 0 else 1) + changes b (step b p ev) evs"


section \<open>Verified properties\<close>

subsection \<open>Percentiles\<close>

lemma js_get_in_range:
  "0 \<le> i \<Longrightarrow> i < int (length arr) \<Longrightarrow> js_get arr i = Num (arr ! nat i)"
  by (simp add: js_get_def)

lemma percentile_index_bounds:
  assumes "2 \<le> length arr" "0 \<le> p" "p \<le> 100"
  defines "index \<equiv> (p / 100) * real (length arr - 1)"
  shows "0 \<le> \<lfloor>index\<rfloor>" "\<lceil>index\<rceil> < int (length arr)" "\<lfloor>index\<rfloor> \<le> \<lceil>index\<rceil>"
proof -
  have i0: "0 \<le> index" using assms by (simp add: index_def)
  have "p / 100 \<le> 1" using assms by simp
  then have "index \<le> 1 * real (length arr - 1)"
    unfolding index_def by (rule mult_right_mono) simp
  then have i1: "index \<le> real (length arr - 1)" by simp
  show "0 \<le> \<lfloor>index\<rfloor>" using i0 by simp
  have "\<lceil>index\<rceil> \<le> int (length arr - 1)" using i1 by (simp add: ceiling_le_iff)
  then show "\<lceil>index\<rceil> < int (length arr)" using assms(1) by linarith
  show "\<lfloor>index\<rfloor> \<le> \<lceil>index\<rceil>" by (rule floor_le_ceiling)
qed

lemma floor_eq_ceiling_iff_frac: "\<lfloor>x::real\<rfloor> = \<lceil>x\<rceil> \<longleftrightarrow> frac x = 0"
  unfolding frac_def ceiling_altdef by auto

text \<open>
  On a non-empty array and a percentile between 0 and 100 every read of the code is inside
  the array, and the code's test \<open>lower === upper\<close> is the integrality of the index.
\<close>

lemma calculatePercentile_refines:
  assumes "1 \<le> length arr" "0 \<le> p" "p \<le> 100"
  shows "calculatePercentile arr p = Num (spec_percentile arr p)"
proof (cases "length arr = 1")
  case True
  then show ?thesis
    by (simp add: calculatePercentile_def spec_percentile_def js_get_def)
next
  case False
  with assms have n2: "2 \<le> length arr" by simp
  define index where "index = (p / 100) * real (length arr - 1)"
  note b = percentile_index_bounds[OF n2 assms(2,3), folded index_def]
  have "\<lfloor>index\<rfloor> < int (length arr)" using b(2,3) by linarith
  with b(1) have lo: "js_get arr \<lfloor>index\<rfloor> = Num (arr ! nat \<lfloor>index\<rfloor>)"
    by (rule js_get_in_range)
  have "0 \<le> \<lceil>index\<rceil>" using b(1,3) by linarith
  then have hi: "js_get arr \<lceil>index\<rceil> = Num (arr ! nat \<lceil>index\<rceil>)"
    using b(2) by (rule js_get_in_range)
  have len: "length arr \<noteq> 0" "length arr \<noteq> 1" using n2 by auto
  show ?thesis
  proof (cases "\<lfloor>index\<rfloor> = \<lceil>index\<rceil>")
    case True
    then have "frac index = 0" by (simp add: floor_eq_ceiling_iff_frac)
    with True lo show ?thesis
      unfolding calculatePercentile_def spec_percentile_def Let_def index_def[symmetric]
      by (simp only: len if_False if_True) simp
  next
    case neq: False
    then have "frac index \<noteq> 0" by (simp add: floor_eq_ceiling_iff_frac)
    with neq lo hi show ?thesis
      unfolding calculatePercentile_def spec_percentile_def Let_def index_def[symmetric]
      by (simp only: len if_False js_mul.simps js_add.simps frac_def)
  qed
qed

lemma spec_percentile_0: "spec_percentile arr 0 = arr ! 0"
  by (simp add: spec_percentile_def)

lemma spec_percentile_100: "arr \<noteq> [] \<Longrightarrow> spec_percentile arr 100 = last arr"
  by (simp add: spec_percentile_def last_conv_nth)

lemma spec_percentile_single: "length arr = 1 \<Longrightarrow> spec_percentile arr p = arr ! 0"
  by (simp add: spec_percentile_def)

text \<open>
  Claim C4. For an array of length \<open>n \<ge> 1\<close> (sorted or not) and a percentile \<open>p\<close> in
  \<open>[0, 100]\<close>, \<open>calculatePercentile\<close> returns the percentile of the specification: with
  \<open>index = p/100 \<times> (n - 1)\<close>, the element at \<open>index\<close> when it is integral and otherwise
  the interpolation of the floor and ceiling elements weighted by the fractional part.
  Hence one element is returned for any \<open>p\<close>, percentile 0 is the first element and
  percentile 100 the last.
\<close>

theorem calculatePercentile_interpolates:
  assumes "1 \<le> length arr" "0 \<le> p" "p \<le> 100"
  shows "calculatePercentile arr p = Num (spec_percentile arr p)
       \<and> (length arr = 1 \<longrightarrow> calculatePercentile arr p = Num (arr ! 0))
       \<and> calculatePercentile arr 0 = Num (arr ! 0)
       \<and> calculatePercentile arr 100 = Num (last arr)"
proof -
  from assms(1) have ne: "arr \<noteq> []" by (cases arr) simp_all
  have main: "calculatePercentile arr p = Num (spec_percentile arr p)"
    using assms by (rule calculatePercentile_refines)
  have p0: "calculatePercentile arr 0 = Num (spec_percentile arr 0)"
    using assms(1) by (rule calculatePercentile_refines) simp_all
  have p100: "calculatePercentile arr 100 = Num (spec_percentile arr 100)"
    using assms(1) by (rule calculatePercentile_refines) simp_all
  show ?thesis
    using main p0 p100 ne
    by (simp add: spec_percentile_0 spec_percentile_100 spec_percentile_single)
qed

theorem calculatePercentile_interpolates_witness:
  "1 \<le> length [10, 20, 30, 40 :: real] \<and> (0::real) \<le> 95 \<and> (95::real) \<le> 100
   \<and> calculatePercentile [10, 20, 30, 40] 95 = Num (385 / 10)
   \<and> calculatePercentile [10, 20, 30, 40] 0 = Num 10
   \<and> calculatePercentile [10, 20, 30, 40] 100 = Num 40"
  using calculatePercentile_interpolates [of "[10, 20, 30, 40]" 95]
  by (simp add: spec_percentile_def frac_def)

subsection \<open>Statistics without a success\<close>

text \<open>The object returned when no record is a success, for any records.\<close>

lemma calculateStats_no_success:
  "filter success results = [] \<Longrightarrow>
   calculateStats results =
     \<lparr> count = 0, successfulCount = None, failedCount = None,
       successRate = Num 0, failureRate = Num 100,
       avgTotalTime = Num 0, avgOpenAITime = Num 0, avgNetworkLatency = Num 0,
       medianTotalTime = Num 0, p95TotalTime = Num 0, p99TotalTime = Num 0,
       minTotalTime = Num 0, maxTotalTime = Num 0,
       totalTokens = 0, avgTokensPerRequest = Num 0 \<rparr>"
  by (simp add: calculateStats_def)

text \<open>
  Claim C3. Without a successful record \<open>calculateStats\<close> returns success rate 0, failure
  rate 100 and every timing field 0, but its \<open>count\<close> is the constant 0 and not the number
  of attempts: for two requests that both timed out the count is 0, where the other
  branch of the function returns \<open>results.length\<close>, here 2.
\<close>

theorem calculateStats_all_failed_count:
  "count (calculateStats [proxy_timed_out, proxy_timed_out]) = 0
   \<and> length [proxy_timed_out, proxy_timed_out] = 2
   \<and> \<not> success proxy_timed_out
   \<and> failureRate (calculateStats [proxy_timed_out, proxy_timed_out]) = Num 100
   \<and> successfulCount (calculateStats [proxy_timed_out, proxy_timed_out]) = None"
  by (simp add: calculateStats_def proxy_timed_out_def makeRequest_def)

subsection \<open>Network latency\<close>

lemma valid_time_truthy: "\<not> isNaN t \<Longrightarrow> js_gt0 t \<Longrightarrow> js_truthy t"
  by (cases t) simp_all

lemma try_headers_truthy: "try_headers pf h names = Some t \<Longrightarrow> js_truthy t"
  by (induction names) (auto simp: Let_def valid_time_truthy split: option.splits if_splits)

lemma scan_entries_truthy: "scan_entries pf es = Some t \<Longrightarrow> js_truthy t"
  by (induction es) (auto simp: Let_def valid_time_truthy split: option.splits if_splits)

lemma extract_truthy: "extractOpenAIProcessingTime pf resp = Some t \<Longrightarrow> js_truthy t"
  by (auto simp: extractOpenAIProcessingTime_def  split: option.splits dest: try_headers_truthy scan_entries_truthy)

lemma extract_time_truthy:
  "time_truthy (extractOpenAIProcessingTime pf resp) \<longleftrightarrow> extractOpenAIProcessingTime pf resp \<noteq> None"
  by (cases "extractOpenAIProcessingTime pf resp") (auto simp: time_truthy_def dest: extract_truthy)

lemma makeRequest_latency:
  "networkLatency (makeRequest pf pr prov t0 outcome t1) =
     (case openaiProcessingTime (makeRequest pf pr prov t0 outcome t1) of
        None \<Rightarrow> None
      | Some t \<Rightarrow> Some (js_sub (Num (totalTime (makeRequest pf pr prov t0 outcome t1))) t))"
  by (auto simp: makeRequest_def Let_def extract_time_truthy split: prompt.splits completer_outcome.splits option.splits)

lemma makeRequest_failed:
  "\<not> success (makeRequest pf pr prov t0 outcome t1) \<Longrightarrow>
     openaiProcessingTime (makeRequest pf pr prov t0 outcome t1) = None
   \<and> networkLatency (makeRequest pf pr prov t0 outcome t1) = None
   \<and> tokensUsed (makeRequest pf pr prov t0 outcome t1) = 0
   \<and> promptTokens (makeRequest pf pr prov t0 outcome t1) = 0
   \<and> completionTokens (makeRequest pf pr prov t0 outcome t1) = 0"
  by (auto simp: makeRequest_def Let_def split: prompt.splits completer_outcome.splits)

lemma extract_first_header:
  assumes "hget h = Some g" "g ''openai-processing-ms'' = Some v" "pf v = Num x" "0 < x"
  shows "extractOpenAIProcessingTime pf (Some h) = Some (Num x)"
  using assms by (simp add: extractOpenAIProcessingTime_def processingTimeHeaders_def header_value_def)


text \<open>
  Claim C5. In every record of \<open>makeRequest\<close> the network latency is the total time minus
  the processing time when a processing time was extracted and \<open>null\<close> otherwise; a
  failed record has no processing time, no network latency and no tokens. Two requests of
  1000 ms and 1206 ms whose responses declare 800 ms of processing have latencies 200 ms
  and 406 ms, and \<open>calculateStats\<close> averages them to 303 ms.
\<close>

theorem makeRequest_networkLatency:
  fixes parseFloat :: "string \<Rightarrow> jsval" and h :: headers
    and pr :: prompt and prov :: provider and t0 t1 :: real and outcome :: completer_outcome
    and q :: string and u :: "usage option"
  assumes "hget h = Some g" and "g ''openai-processing-ms'' = Some v" and "parseFloat v = Num 800"
  defines "r \<equiv> makeRequest parseFloat pr prov t0 outcome t1"
  defines "r1 \<equiv> makeRequest parseFloat (PromptString q) prov 0 (Resolved u (Some h)) 1000"
  defines "r2 \<equiv> makeRequest parseFloat (PromptString q) prov 0 (Resolved u (Some h)) 1206"
  shows "networkLatency r =
           (case openaiProcessingTime r of
              None \<Rightarrow> None
            | Some t \<Rightarrow> Some (js_sub (Num (totalTime r)) t))
       \<and> (\<not> success r \<longrightarrow>
            openaiProcessingTime r = None \<and> networkLatency r = None
            \<and> tokensUsed r = 0 \<and> promptTokens r = 0 \<and> completionTokens r = 0)
       \<and> totalTime r1 = 1000 \<and> totalTime r2 = 1206
       \<and> openaiProcessingTime r1 = Some (Num 800) \<and> openaiProcessingTime r2 = Some (Num 800)
       \<and> networkLatency r1 = Some (Num 200) \<and> networkLatency r2 = Some (Num 406)
       \<and> avgNetworkLatency (calculateStats [r1, r2]) = Num 303"
proof -
  have ex: "extractOpenAIProcessingTime parseFloat (Some h) = Some (Num 800)"
    using extract_first_header[where h = h and g = g and v = v and pf = parseFloat and x = 800]
          assms(1-3) by simp
  have r1: "r1 = \<lparr> provider = prov, totalTime = 1000, openaiProcessingTime = Some (Num 800),
                   networkLatency = Some (Num 200), success = True, error = None,
                   errorType = None, tokensUsed = tokens_or0 u total_tokens,
                   promptTokens = tokens_or0 u prompt_tokens,
                   completionTokens = tokens_or0 u completion_tokens \<rparr>"
    by (simp add: r1_def makeRequest_def ex time_truthy_def js_sub_def)
  have r2: "r2 = \<lparr> provider = prov, totalTime = 1206, openaiProcessingTime = Some (Num 800),
                   networkLatency = Some (Num 406), success = True, error = None,
                   errorType = None, tokensUsed = tokens_or0 u total_tokens,
                   promptTokens = tokens_or0 u prompt_tokens,
                   completionTokens = tokens_or0 u completion_tokens \<rparr>"
    by (simp add: r2_def makeRequest_def ex time_truthy_def js_sub_def)
  have avg: "avgNetworkLatency (calculateStats [r1, r2]) = Num 303"
    by (simp add: r1 r2 calculateStats_def non_null_def js_sum_def Let_def)
  show ?thesis
    unfolding r_def
    using makeRequest_latency[of parseFloat pr prov t0 outcome t1]
          makeRequest_failed[of parseFloat pr prov t0 outcome t1] avg
    by (simp add: r1 r2)
qed

theorem makeRequest_networkLatency_witness:
  "hget processing_800 = Some (the (hget processing_800))
   \<and> the (hget processing_800) ''openai-processing-ms'' = Some ''800''
   \<and> parse_800 ''800'' = Num 800
   \<and> networkLatency (makeRequest parse_800 (PromptString ''Hello'') OpenAI 0
                        (Resolved None (Some processing_800)) 1206) = Some (Num 406)
   \<and> avgNetworkLatency (calculateStats
        [makeRequest parse_800 (PromptString ''Hello'') OpenAI 0 (Resolved None (Some processing_800)) 1000,
         makeRequest parse_800 (PromptString ''Hello'') OpenAI 0 (Resolved None (Some processing_800)) 1206])
       = Num 303
   \<and> \<not> success (makeRequest parse_800 PromptOther OpenAI 0 (Resolved None (Some processing_800)) 5)
   \<and> networkLatency (makeRequest parse_800 PromptOther OpenAI 0 (Resolved None (Some processing_800)) 5) = None"
proof -
  have a: "hget processing_800 = Some (the (hget processing_800))"
    by (simp add: processing_800_def)
  have b: "the (hget processing_800) ''openai-processing-ms'' = Some ''800''"
    by (simp add: processing_800_def)
  have c: "parse_800 ''800'' = Num 800" by (simp add: parse_800_def)
  have d: "\<not> success (makeRequest parse_800 PromptOther OpenAI 0 (Resolved None (Some processing_800)) 5)"
    by (simp add: makeRequest_def)
  show ?thesis
    using makeRequest_networkLatency [where h = processing_800
            and g = "the (hget processing_800)" and v = "''800''" and parseFloat = parse_800
            and pr = PromptOther and prov = OpenAI
            and ?t0.0 = 0 and outcome = "Resolved None (Some processing_800)" and ?t1.0 = 5
            and q = "''Hello''" and u = None] a b c d
    by simp
qed

subsection \<open>The overhead percentage\<close>

text \<open>
  Claim C7. In comparison mode, when every direct request failed, the average total time
  of the direct provider is 0 and \<open>generateReport\<close> divides by it: the overhead
  percentage is \<open>Infinity\<close> when the proxy had a success and \<open>NaN\<close> when it had none, not a
  sentinel.
\<close>

theorem generateReport_percentage_not_sentinel:
  "map_option latencyOverheadPercentage
     (comparison (generateReport example_config [direct_timed_out] [proxy_ok])) = Some PosInf
   \<and> map_option latencyOverheadPercentage
     (comparison (generateReport example_config [direct_timed_out] [proxy_timed_out])) = Some NaN
   \<and> avgTotalTime (openaiStats (generateReport example_config [direct_timed_out] [proxy_ok])) = Num 0"
  by (simp add: Let_def generateReport_def calculateStats_def example_config_def mode_or_comparison_def
        str_truthy_def direct_timed_out_def proxy_timed_out_def proxy_ok_def makeRequest_def
        extractOpenAIProcessingTime_def time_truthy_def js_sum_def js_sub_def inf_of_sign_def)

subsection \<open>The preflight probes\<close>

lemma preflight_calls:
  "fst (runPreflightTest cfg sto stp request) =
     (if sto then [(OpenAI, testPrompt_of (prompt cfg))] else [])
     @ (if stp then [(Portkey, testPrompt_of (prompt cfg))] else [])"
  by (simp add: runPreflightTest_def Let_def)

text \<open>
  Claim C8, amended. \<open>runPreflightTest\<close> makes one call per active provider, each with the
  same test prompt. For a string prompt the test prompt is the first 100 characters,
  followed by three dots when the prompt is longer than 100 characters: it has at most 103
  characters, and a prompt of at most 100 characters is passed unchanged. An array of
  messages is passed unchanged.
\<close>

theorem preflight_prompt_truncated:
  "fst (runPreflightTest cfg sto stp request) =
     (if sto then [(OpenAI, testPrompt_of (prompt cfg))] else [])
     @ (if stp then [(Portkey, testPrompt_of (prompt cfg))] else [])
   \<and> (\<forall>s. prompt cfg = PromptString s \<longrightarrow>
         (\<exists>t. testPrompt_of (prompt cfg) = PromptString t
              \<and> t = take 100 s @ (if 100 < length s then ''...'' else [])
              \<and> length t \<le> 103
              \<and> (length s \<le> 100 \<longrightarrow> t = s)))
   \<and> (\<forall>ms. prompt cfg = PromptMessages ms \<longrightarrow> testPrompt_of (prompt cfg) = PromptMessages ms)"
  by (auto simp: preflight_calls testPrompt_of_def)

theorem preflight_prompt_truncated_witness:
  "prompt long_prompt_config = PromptString (replicate 101 CHR ''a'')
   \<and> fst (runPreflightTest long_prompt_config True True probes_unreachable)
       = [(OpenAI, PromptString (replicate 100 CHR ''a'' @ ''...'')),
          (Portkey, PromptString (replicate 100 CHR ''a'' @ ''...''))]"
  using preflight_prompt_truncated [of long_prompt_config True True probes_unreachable]
  by (simp add: long_prompt_config_def example_config_def testPrompt_of_def)

text \<open>
  Claim C8 as stated fails: for a prompt of 101 characters both probes are called with a
  prompt of 103 characters, which is more than 100.
\<close>

theorem preflight_prompt_103_chars:
  "fst (runPreflightTest long_prompt_config True True probes_unreachable)
     = [(OpenAI, PromptString (replicate 100 CHR ''a'' @ ''...'')),
        (Portkey, PromptString (replicate 100 CHR ''a'' @ ''...''))]
   \<and> length (replicate 100 CHR ''a'' @ ''...'') = 103
   \<and> \<not> length (replicate 100 CHR ''a'' @ ''...'') \<le> 100"
  by (simp add: preflight_calls long_prompt_config_def example_config_def testPrompt_of_def)


lemma preflight_result_cases:
  "snd (runPreflightTest cfg sto stp request) =
     (let okO = probe_success (if sto then Some (request OpenAI (testPrompt_of (prompt cfg))) else None);
          okP = probe_success (if stp then Some (request Portkey (testPrompt_of (prompt cfg))) else None);
          enabled = (if sto then [''OpenAI''] else []) @ (if stp then [''Portkey''] else []);
          failed = (if sto \<and> \<not> okO then [''OpenAI''] else []) @ (if stp \<and> \<not> okP then [''Portkey''] else [])
      in if length failed = length enabled then Inl (AllProvidersFailed failed)
         else if length failed > 0 then Inl (SomeProvidersFailed failed)
         else snd (runPreflightTest cfg sto stp request))"
  by (simp add: runPreflightTest_def Let_def)

lemma runBenchmark_failed:
  "snd (runPreflightTest cfg sto stp request) = Inl e \<Longrightarrow>
   runBenchmark cfg sto stp request startTime events
     = (fst (runPreflightTest cfg sto stp request), Failed e)"
  by (cases "runPreflightTest cfg sto stp request") (simp add: runBenchmark_def)

text \<open>
  Claim C6. When the probe of some active provider fails, \<open>runPreflightTest\<close> throws: the
  error of all providers when the failed providers are all the active ones, the error of
  some providers otherwise. \<open>runBenchmark\<close> then fails with the same error, and the only
  calls of the Request Executor are the probes: no worker is started, whatever the
  schedule of events.
\<close>

theorem preflight_failure_aborts:
  fixes cfg :: config and request :: "provider \<Rightarrow> prompt \<Rightarrow> probe" and sto stp :: bool
  defines "okO \<equiv> probe_success (Some (request OpenAI (testPrompt_of (prompt cfg))))"
  defines "okP \<equiv> probe_success (Some (request Portkey (testPrompt_of (prompt cfg))))"
  defines "enabled \<equiv> (if sto then [''OpenAI''] else []) @ (if stp then [''Portkey''] else [])"
  defines "failed \<equiv> (if sto \<and> \<not> okO then [''OpenAI''] else [])
                      @ (if stp \<and> \<not> okP then [''Portkey''] else [])"
  defines "probes \<equiv> (if sto then [(OpenAI, testPrompt_of (prompt cfg))] else [])
                      @ (if stp then [(Portkey, testPrompt_of (prompt cfg))] else [])"
  assumes "failed \<noteq> []"
  shows "(failed = enabled \<longrightarrow>
            runPreflightTest cfg sto stp request = (probes, Inl (AllProvidersFailed failed))
          \<and> runBenchmark cfg sto stp request startTime events
              = (probes, Failed (AllProvidersFailed failed)))
       \<and> (failed \<noteq> enabled \<longrightarrow>
            runPreflightTest cfg sto stp request = (probes, Inl (SomeProvidersFailed failed))
          \<and> runBenchmark cfg sto stp request startTime events
              = (probes, Failed (SomeProvidersFailed failed)))"
proof -
  have calls: "fst (runPreflightTest cfg sto stp request) = probes"
    by (simp add: preflight_calls probes_def)
  have res: "snd (runPreflightTest cfg sto stp request) =
      (if failed = enabled then Inl (AllProvidersFailed failed) else Inl (SomeProvidersFailed failed))"
    using assms(6)
    by (subst preflight_result_cases)
       (auto simp: Let_def failed_def enabled_def okO_def okP_def split: if_splits)
  show ?thesis
    using calls res runBenchmark_failed[of cfg sto stp request _ startTime events]
    by (auto simp: prod_eq_iff)
qed

theorem preflight_failure_aborts_witness:
  "runBenchmark example_config True True probe_direct_down 0 [Tick 0 0, Tick 1 0]
     = ([(OpenAI, PromptString ''Hello''), (Portkey, PromptString ''Hello'')],
        Failed (SomeProvidersFailed [''OpenAI'']))
   \<and> runBenchmark example_config True True probes_unreachable 0 [Tick 0 0, Tick 1 0]
     = ([(OpenAI, PromptString ''Hello''), (Portkey, PromptString ''Hello'')],
        Failed (AllProvidersFailed [''OpenAI'', ''Portkey'']))"
  using preflight_failure_aborts [where sto = True and stp = True and cfg = example_config
          and request = probe_direct_down and startTime = 0 and events = "[Tick 0 0, Tick 1 0]"]
        preflight_failure_aborts [where sto = True and stp = True and cfg = example_config
          and request = probes_unreachable and startTime = 0 and events = "[Tick 0 0, Tick 1 0]"]
  by (simp add: example_config_def testPrompt_of_def probe_direct_down_def probes_unreachable_def
        direct_timed_out_def proxy_ok_def makeRequest_def Let_def)


subsection \<open>A configuration without a mode\<close>

lemma mode_omitted: "mode cfg = None \<Longrightarrow> mode_or_comparison cfg = ''comparison''"
  by (simp add: mode_or_comparison_def str_truthy_def)

lemma mode_or_comparison_update [simp]:
  "mode_or_comparison (cfg\<lparr>mode := Some ''comparison''\<rparr>) = ''comparison''"
  by (simp add: mode_or_comparison_def str_truthy_def)

text \<open>
  Claim C9. When the configuration has no \<open>mode\<close> field, the constructor's provider
  selection succeeds with both providers, the validation of \<open>main\<close> raises no invalid-mode
  error, and the preflight, the report and the whole run are those of the same
  configuration with mode \<open>comparison\<close>.
\<close>

theorem mode_defaults_to_comparison:
  assumes "mode cfg = None"
  shows "determineProvidersFromMode cfg = Inr (True, True)
       \<and> mode_or_comparison cfg = ''comparison''
       \<and> (\<forall>m. main_validate cfg \<noteq> Inl (InvalidMode m))
       \<and> main_validate cfg = main_validate (cfg\<lparr>mode := Some ''comparison''\<rparr>)
       \<and> runPreflightTest cfg sto stp request
           = runPreflightTest (cfg\<lparr>mode := Some ''comparison''\<rparr>) sto stp request
       \<and> generateReport cfg resultsOpenai resultsPortkey
           = generateReport (cfg\<lparr>mode := Some ''comparison''\<rparr>) resultsOpenai resultsPortkey
       \<and> main cfg request startTime events
           = main (cfg\<lparr>mode := Some ''comparison''\<rparr>) request startTime events"
proof -
  note m = mode_omitted[OF assms]
  have d: "determineProvidersFromMode cfg = Inr (True, True)"
    by (simp add: determineProvidersFromMode_def m Let_def)
  have v: "main_validate cfg = main_validate (cfg\<lparr>mode := Some ''comparison''\<rparr>)"
    by (simp add: main_validate_def m Let_def)
  have nv: "main_validate cfg \<noteq> Inl (InvalidMode x)" for x
    by (simp add: main_validate_def m Let_def)
  have p: "runPreflightTest c a b request
           = runPreflightTest (c\<lparr>mode := Some ''comparison''\<rparr>) a b request"
    if "mode_or_comparison c = ''comparison''" for c a b
    using that by (simp add: runPreflightTest_def Let_def)
  have g: "generateReport c ro rp = generateReport (c\<lparr>mode := Some ''comparison''\<rparr>) ro rp"
    if "mode_or_comparison c = ''comparison''" for c ro rp
    using that by (simp add: generateReport_def Let_def)
  have md: "mode_or_comparison (main_defaults cfg) = ''comparison''"
    using assms by (simp add: main_defaults_def mode_or_comparison_def str_truthy_def)
  have md2: "main_defaults (cfg\<lparr>mode := Some ''comparison''\<rparr>)
             = (main_defaults cfg)\<lparr>mode := Some ''comparison''\<rparr>"
    by (simp add: main_defaults_def)
  have pool: "run_pool \<lparr>b_config = c\<lparr>mode := Some ''comparison''\<rparr>, b_startTime = t,
                          b_openaiEnabled = oe, b_portkeyEnabled = pe, b_workers = k\<rparr> evs
              = run_pool \<lparr>b_config = c, b_startTime = t,
                          b_openaiEnabled = oe, b_portkeyEnabled = pe, b_workers = k\<rparr> evs"
    for c t oe pe k evs
  proof -
    have "step \<lparr>b_config = c\<lparr>mode := Some ''comparison''\<rparr>, b_startTime = t,
                 b_openaiEnabled = oe, b_portkeyEnabled = pe, b_workers = k\<rparr>
          = step \<lparr>b_config = c, b_startTime = t, b_openaiEnabled = oe,
                   b_portkeyEnabled = pe, b_workers = k\<rparr>"
      by (intro ext) (simp add: step_def loop_head_def settle_def Let_def split: event.splits worker.splits)
    then show ?thesis by (simp add: run_pool_def)
  qed
  have rb: "runBenchmark c a b request startTime events
            = runBenchmark (c\<lparr>mode := Some ''comparison''\<rparr>) a b request startTime events"
    if "mode_or_comparison c = ''comparison''" for c a b
  proof -
    obtain calls res where eq: "runPreflightTest c a b request = (calls, res)"
      by (cases "runPreflightTest c a b request") auto
    then have eq': "runPreflightTest (c\<lparr>mode := Some ''comparison''\<rparr>) a b request = (calls, res)"
      using p[OF that, of a b] by simp
    show ?thesis
      by (cases res)
         (simp_all add: runBenchmark_def eq eq' pool g[OF that, symmetric] Let_def
                   split: option.splits)
  qed
  have mn: "main cfg request startTime events
           = main (cfg\<lparr>mode := Some ''comparison''\<rparr>) request startTime events"
    using rb[OF md] d
    by (simp add: main_def v[symmetric] md2 determineProvidersFromMode_def md Let_def
             split: sum.splits)
  show ?thesis using d m v nv p[OF m] g[OF m] mn by simp
qed

theorem mode_defaults_to_comparison_witness:
  "mode no_mode_config = None
   \<and> determineProvidersFromMode no_mode_config = Inr (True, True)
   \<and> main_validate no_mode_config = Inr ()
   \<and> fst (main no_mode_config probes_unreachable 0 [])
        = [(OpenAI, PromptString ''Hello''), (Portkey, PromptString ''Hello'')]"
proof -
  have a: "mode no_mode_config = None" by (simp add: no_mode_config_def)
  have b: "no_mode_config\<lparr>mode := Some ''comparison''\<rparr> = example_config"
    by (simp add: no_mode_config_def example_config_def)
  have c: "main_validate example_config = Inr ()"
    by (simp add: main_validate_def example_config_def mode_or_comparison_def str_truthy_def Let_def)
  have d: "fst (main example_config probes_unreachable 0 [])
        = [(OpenAI, PromptString ''Hello''), (Portkey, PromptString ''Hello'')]"
    unfolding main_def c
    by (simp add: determineProvidersFromMode_def main_defaults_def example_config_def
          mode_or_comparison_def str_truthy_def runBenchmark_def runPreflightTest_def
          probes_unreachable_def testPrompt_of_def Let_def)
  show ?thesis
    using mode_defaults_to_comparison [OF a, of True True probes_unreachable "[]" "[]" 0 "[]"] a c d
    by (simp add: b)
qed

subsection \<open>The worker pool\<close>

lemma run_pool_Nil: "run_pool b [] = init_pool (b_workers b)"
  by (simp add: run_pool_def)

lemma run_pool_snoc: "run_pool b (evs @ [ev]) = step b (run_pool b evs) ev"
  by (simp add: run_pool_def)

lemma run_pool_append: "run_pool b (xs @ ys) = foldl (step b) (run_pool b xs) ys"
  by (simp add: run_pool_def)

lemmas step_defs = step_def loop_head_def settle_def Let_def

lemma step_count_mono: "requestCount (sharedState p) \<le> requestCount (sharedState (step b p ev))"
  by (auto simp: step_defs split: event.splits worker.splits)

lemma step_stop_mono: "shouldStop (sharedState p) \<Longrightarrow> shouldStop (sharedState (step b p ev))"
  by (auto simp: step_defs split: event.splits worker.splits)


lemma flags_ok_init: "flags_ok (init_pool n)"
  by (auto simp: flags_ok_def init_pool_def)

lemma flags_ok_step: "flags_ok p \<Longrightarrow> flags_ok (step b p ev)"
  unfolding flags_ok_def
  by (auto simp: step_defs split: event.splits worker.splits dest!: set_update_subset_insert[THEN subsetD])

lemma flags_ok_run: "flags_ok (run_pool b evs)"
  by (induction evs rule: rev_induct) (simp_all add: run_pool_Nil run_pool_snoc flags_ok_init flags_ok_step)

lemma foldl_count_mono: "requestCount (sharedState p) \<le> requestCount (sharedState (foldl (step b) p evs))"
  by (induction evs arbitrary: p) (auto intro: order_trans[OF step_count_mono])

lemma foldl_stop_mono: "shouldStop (sharedState p) \<Longrightarrow> shouldStop (sharedState (foldl (step b) p evs))"
  by (induction evs arbitrary: p) (auto intro: step_stop_mono)


lemma awaiting_update:
  "i < length ws \<Longrightarrow> awaiting (ws[i := x]) + is_awaiting (ws ! i) = awaiting ws + is_awaiting x"
  unfolding awaiting_def
  by (induction ws arbitrary: i) (auto split: nat.splits)

lemma awaiting_replicate: "awaiting (replicate n AtLoopHead) = 0"
  by (simp add: awaiting_def)

lemma awaiting_all_finished: "all_finished p \<Longrightarrow> awaiting (workers p) = 0"
  by (auto simp: all_finished_def awaiting_def list_all_iff)

lemma captured_run: "map snd (captured (run_pool b evs)) = [1 ..< Suc (requestCount (sharedState (run_pool b evs)))]"
proof (induction evs rule: rev_induct)
  case Nil
  show ?case by (simp add: run_pool_Nil init_pool_def)
next
  case (snoc ev evs)
  have "map snd (captured (step b p ev)) = [1 ..< Suc (requestCount (sharedState (step b p ev)))]"
    if "map snd (captured p) = [1 ..< Suc (requestCount (sharedState p))]" for p
    using that by (auto simp: step_defs split: event.splits worker.splits)
  with snoc show ?case by (simp add: run_pool_snoc)
qed

lemma max_ok_init: "max_ok m b (init_pool n)"
  by (simp add: max_ok_def init_pool_def awaiting_replicate)

lemma max_ok_step:
  assumes "maxRequests (b_config b) = JNumber (real m)" "0 < m" "flags_ok p" "max_ok m b p"
  shows "max_ok m b (step b p ev)"
proof (cases ev)
  case (Tick w now)
  show ?thesis
  proof (cases "w < length (workers p) \<and> workers p ! w = AtLoopHead")
    case False
    then show ?thesis using assms(4) Tick by (auto simp: step_def)
  next
    case True
    then have aw: "awaiting ((workers p)[w := x]) = awaiting (workers p) + is_awaiting x" for x
      using awaiting_update[of w "workers p" x] by simp
    show ?thesis
      using assms True Tick unfolding max_ok_def flags_ok_def
      by (auto simp: step_defs aw)
  qed
next
  case (Settle w res)
  show ?thesis
  proof (cases "w < length (workers p) \<and> (\<exists>n. workers p ! w = Awaiting n)")
    case False
    then show ?thesis using assms(4) Settle by (auto simp: step_def split: worker.splits)
  next
    case True
    then have aw: "awaiting ((workers p)[w := AtLoopHead]) + 1 = awaiting (workers p)"
      using awaiting_update[of w "workers p" AtLoopHead] by auto
    show ?thesis
      using assms True Settle aw unfolding max_ok_def flags_ok_def
      by (auto simp: step_defs)
  qed
qed

lemma max_ok_run:
  assumes "maxRequests (b_config b) = JNumber (real m)" "0 < m"
  shows "max_ok m b (run_pool b evs)"
  by (induction evs rule: rev_induct)
     (simp_all add: run_pool_Nil run_pool_snoc max_ok_init max_ok_step[OF assms] flags_ok_run)


lemma suc_le_ceiling: "\<not> M \<le> real n \<Longrightarrow> Suc n \<le> nat \<lceil>M\<rceil>"
proof -
  assume "\<not> M \<le> real n"
  then have "real_of_int (int n) < M" by simp
  then have "int n < \<lceil>M\<rceil>" by (simp only: less_ceiling_iff)
  then show ?thesis by linarith
qed

lemma count_step_bounded:
  assumes "limit_truthy (maxRequests (b_config b))
           \<and> limit_number (maxRequests (b_config b)) = Num M"
    and "requestCount (sharedState p) \<le> nat \<lceil>M\<rceil>"
  shows "requestCount (sharedState (step b p ev)) \<le> nat \<lceil>M\<rceil>"
  using assms suc_le_ceiling[of "M" "requestCount (sharedState p)"]
  by (auto simp: step_defs split: event.splits worker.splits)


text \<open>
  Termination: under a request limit every event that changes the state lowers the
  measure, and a pool with a worker that has not returned has such an event.
\<close>

lemma unfinished_update:
  "i < length ws \<Longrightarrow> unfinished (ws[i := x]) + is_unfinished (ws ! i) = unfinished ws + is_unfinished x"
  unfolding unfinished_def
  by (induction ws arbitrary: i) (auto split: nat.splits)

lemma unfinished_replicate: "unfinished (replicate n AtLoopHead) = n"
  by (simp add: unfinished_def sum_list_replicate)

lemma step_remaining:
  assumes "limit_truthy (maxRequests (b_config b))
           \<and> limit_number (maxRequests (b_config b)) = Num M"
    and "requestCount (sharedState p) \<le> nat \<lceil>M\<rceil>"
    and "step b p ev \<noteq> p"
  shows "remaining (nat \<lceil>M\<rceil>) (step b p ev)
         < remaining (nat \<lceil>M\<rceil>) p"
proof (cases ev)
  case (Tick w now)
  with assms(3) have w: "w < length (workers p)" "workers p ! w = AtLoopHead"
    by (auto simp: step_def split: if_splits)
  have aw: "awaiting ((workers p)[w := x]) = awaiting (workers p) + is_awaiting x" for x
    using awaiting_update[of w "workers p" x] w by simp
  have un: "unfinished ((workers p)[w := x]) + 1 = unfinished (workers p) + is_unfinished x" for x
    using unfinished_update[of w "workers p" x] w by simp
  have un_fin: "unfinished ((workers p)[w := Finished]) + 1 = unfinished (workers p)"
    using un[of Finished] by simp
  have un_aw: "unfinished ((workers p)[w := Awaiting k]) = unfinished (workers p)" for k
    using un[of "Awaiting k"] by simp
  show ?thesis
    using assms(1,2) w Tick un_fin suc_le_ceiling[of "M" "requestCount (sharedState p)"]
    unfolding remaining_def
    by (auto simp: step_defs aw un_aw)
next
  case (Settle w res)
  with assms(3) obtain k where w: "w < length (workers p)" "workers p ! w = Awaiting k"
    by (auto simp: step_def split: if_splits worker.splits)
  have aw: "awaiting ((workers p)[w := AtLoopHead]) + 1 = awaiting (workers p)"
    using awaiting_update[of w "workers p" AtLoopHead] w by simp
  have un: "unfinished ((workers p)[w := AtLoopHead]) = unfinished (workers p)"
    using unfinished_update[of w "workers p" AtLoopHead] w by simp
  show ?thesis
    using w Settle aw un unfolding remaining_def
    by (auto simp: step_defs)
qed

lemma changes_remaining:
  assumes "limit_truthy (maxRequests (b_config b))
           \<and> limit_number (maxRequests (b_config b)) = Num M"
    and "requestCount (sharedState p) \<le> nat \<lceil>M\<rceil>"
  shows "changes b p evs + remaining (nat \<lceil>M\<rceil>) (foldl (step b) p evs)
         \<le> remaining (nat \<lceil>M\<rceil>) p"
  using assms(2)
proof (induction evs arbitrary: p)
  case Nil
  show ?case by simp
next
  case (Cons ev evs)
  note bound = count_step_bounded[OF assms(1) Cons.prems, of ev]
  note ih = Cons.IH[OF bound]
  show ?case
  proof (cases "step b p ev = p")
    case True
    with ih show ?thesis by simp
  next
    case False
    from False step_remaining[OF assms(1) Cons.prems False] ih show ?thesis by simp
  qed
qed

lemma changes_bounded:
  assumes "limit_truthy (maxRequests (b_config b))
           \<and> limit_number (maxRequests (b_config b)) = Num M"
  shows "changes b (init_pool (b_workers b)) evs
         \<le> 2 * nat \<lceil>M\<rceil> + length (workers (init_pool (b_workers b)))"
proof -
  have "remaining k (init_pool n) = 2 * k + length (workers (init_pool n))" for k n
    by (simp add: remaining_def init_pool_def awaiting_replicate unfinished_replicate)
  moreover have "requestCount (sharedState (init_pool (b_workers b))) \<le> nat \<lceil>M\<rceil>"
    by (simp add: init_pool_def)
  ultimately show ?thesis
    using changes_remaining[OF assms, of "init_pool (b_workers b)" evs] by simp
qed

lemma progress:
  assumes "\<not> all_finished p"
  shows "\<exists>ev. step b p ev \<noteq> p"
proof -
  from assms obtain w where w: "w < length (workers p)" "workers p ! w \<noteq> Finished"
    by (auto simp: all_finished_def list_all_length)
  show ?thesis
  proof (cases "workers p ! w")
    case AtLoopHead
    have "workers (step b p (Tick w 0)) ! w \<noteq> AtLoopHead"
      using w AtLoopHead by (simp add: step_defs)
    with AtLoopHead have "step b p (Tick w 0) \<noteq> p" by auto
    then show ?thesis by blast
  next
    case (Awaiting k)
    have "workers (step b p (Settle w (\<lambda>prov. proxy_ok))) ! w = AtLoopHead"
      using w Awaiting by (simp add: step_defs)
    with Awaiting have "step b p (Settle w (\<lambda>prov. proxy_ok)) \<noteq> p" by auto
    then show ?thesis by blast
  next
    case Finished
    with w show ?thesis by simp
  qed
qed

text \<open>The example schedule, run: all four workers return after exactly 10 rounds.\<close>

lemma example_run:
  "run_pool example_bench example_schedule =
     \<lparr> sharedState = \<lparr> requestCount = 10, shouldStop = True,
                       maxRequestsReached = True, timeLimit = False \<rparr>,
       workers = [Finished, Finished, Finished, Finished],
       results_openai = replicate 10 (round_ok OpenAI),
       results_portkey = replicate 10 (round_ok Portkey),
       issued = concat (replicate 10 [(OpenAI, PromptString ''Hello''), (Portkey, PromptString ''Hello'')]),
       captured = [(0, 1), (1, 2), (2, 3), (3, 4), (0, 5), (1, 6), (2, 7), (3, 8), (0, 9), (1, 10)] \<rparr>"
  by (simp add: run_pool_def example_schedule_def example_bench_def example_config_def
        init_pool_def step_defs numeral_eq_Suc)

text \<open>
  Claim C2. Along every schedule of the workers the request counter never decreases and
  \<open>shouldStop\<close>, once true, stays true: both hold from any prefix of a schedule to any
  extension of it. The two terminal reasons are never both set, in any state the pool
  reaches and so at completion.
\<close>

theorem shared_state_invariants:
  "requestCount (sharedState (run_pool b xs)) \<le> requestCount (sharedState (run_pool b (xs @ ys)))
   \<and> (shouldStop (sharedState (run_pool b xs)) \<longrightarrow> shouldStop (sharedState (run_pool b (xs @ ys))))
   \<and> \<not> (maxRequestsReached (sharedState (run_pool b xs)) \<and> timeLimit (sharedState (run_pool b xs)))"
  using flags_ok_run[of b xs]
  by (simp add: run_pool_append foldl_count_mono foldl_stop_mono flags_ok_def)

theorem shared_state_invariants_witness:
  "shouldStop (sharedState (run_pool example_bench example_schedule))
   \<and> shouldStop (sharedState (run_pool example_bench (example_schedule @ [Tick 0 400])))
   \<and> requestCount (sharedState (run_pool example_bench (example_schedule @ [Tick 0 400]))) = 10
   \<and> maxRequestsReached (sharedState (run_pool example_bench example_schedule))
   \<and> \<not> timeLimit (sharedState (run_pool example_bench example_schedule))"
  using shared_state_invariants [of example_bench example_schedule "[Tick 0 400]"]
  by (simp add: run_pool_snoc example_run step_def)

text \<open>
  Claim C1. With a limit of \<open>m > 0\<close> requests, along every schedule the counter is at most
  \<open>m\<close>, it is exactly \<open>m\<close> whenever the max-requests flag is set, and the values that the
  workers capture after incrementing are pairwise distinct. When all workers (at least
  one) have returned and the time limit did not fire, the counter is exactly \<open>m\<close>, the
  max-requests flag is set and each enabled provider has exactly \<open>m\<close> records. The pool
  does stop: a schedule has at most \<open>2m\<close> plus the number of workers events that change
  the state, and as long as a worker has not returned some event changes it. The witness
  runs concurrency 4 and a limit of 10 to completion.
\<close>

theorem pool_stops_at_max:
  fixes b :: bench and evs :: "event list" and m :: nat
  assumes "maxRequests (b_config b) = JNumber (real m)" and "0 < m"
  defines "p \<equiv> run_pool b evs"
  shows "requestCount (sharedState p) \<le> m
       \<and> (maxRequestsReached (sharedState p) \<longrightarrow> requestCount (sharedState p) = m)
       \<and> distinct (map snd (captured p))
       \<and> (all_finished p \<and> workers p \<noteq> [] \<and> \<not> timeLimit (sharedState p) \<longrightarrow>
            requestCount (sharedState p) = m \<and> maxRequestsReached (sharedState p)
            \<and> length (results_openai p) = (if b_openaiEnabled b then m else 0)
            \<and> length (results_portkey p) = (if b_portkeyEnabled b then m else 0))
       \<and> changes b (init_pool (b_workers b)) evs \<le> 2 * m + b_workers b
       \<and> (\<not> all_finished p \<longrightarrow> (\<exists>ev. step b p ev \<noteq> p))"
proof -
  have mx: "max_ok m b p" unfolding p_def using assms(1,2) by (rule max_ok_run)
  have tr: "limit_truthy (maxRequests (b_config b))
            \<and> limit_number (maxRequests (b_config b)) = Num (real m)"
    using assms(1,2) by simp
  have ch: "changes b (init_pool (b_workers b)) evs \<le> 2 * m + b_workers b"
    using changes_bounded[OF tr, of evs] by (simp add: init_pool_def)
  have pr: "\<exists>ev. step b p ev \<noteq> p" if "\<not> all_finished p"
    using that by (rule progress)
  have fl: "flags_ok p" unfolding p_def by (rule flags_ok_run)
  have cap: "distinct (map snd (captured p))"
    unfolding p_def captured_run by simp
  have fin: "requestCount (sharedState p) = m \<and> maxRequestsReached (sharedState p)
            \<and> length (results_openai p) = (if b_openaiEnabled b then m else 0)
            \<and> length (results_portkey p) = (if b_portkeyEnabled b then m else 0)"
    if "all_finished p" "workers p \<noteq> []" "\<not> timeLimit (sharedState p)"
  proof -
    from that(1,2) have "Finished \<in> set (workers p)"
      by (cases "workers p") (auto simp: all_finished_def)
    with fl that(3) have reached: "maxRequestsReached (sharedState p)"
      by (auto simp: flags_ok_def)
    with mx have cnt: "requestCount (sharedState p) = m" by (simp add: max_ok_def)
    from that(1) have "awaiting (workers p) = 0" by (rule awaiting_all_finished)
    with mx cnt reached show ?thesis by (auto simp: max_ok_def split: if_splits)
  qed
  have safe: "requestCount (sharedState p) \<le> m
       \<and> (maxRequestsReached (sharedState p) \<longrightarrow> requestCount (sharedState p) = m)"
    using mx by (simp add: max_ok_def)
  from safe cap fin ch pr show ?thesis by blast
qed

theorem pool_stops_at_max_witness:
  "maxRequests (b_config example_bench) = JNumber (real 10) \<and> (0::nat) < 10
   \<and> length (workers (run_pool example_bench example_schedule)) = 4
   \<and> all_finished (run_pool example_bench example_schedule)
   \<and> \<not> timeLimit (sharedState (run_pool example_bench example_schedule))
   \<and> requestCount (sharedState (run_pool example_bench example_schedule)) = 10
   \<and> length (results_openai (run_pool example_bench example_schedule)) = 10
   \<and> length (results_portkey (run_pool example_bench example_schedule)) = 10
   \<and> map snd (captured (run_pool example_bench example_schedule)) = [1, 2, 3, 4, 5, 6, 7, 8, 9, 10]
   \<and> changes example_bench (init_pool (b_workers example_bench)) example_schedule \<le> 24"
proof -
  have a: "maxRequests (b_config example_bench) = JNumber (real 10)"
    by (simp add: example_bench_def example_config_def)
  have w: "b_workers example_bench = 4"
    by (simp add: example_bench_def)
  show ?thesis
    using pool_stops_at_max [OF a, where evs = example_schedule] a w
    by (simp add: example_run all_finished_def)
qed

subsection \<open>The bounds that \<open>main\<close> sets\<close>
























end
